theory Spec2Isabelle
  imports Main "HOL-Library.Word"
begin

unbundle bit_operations_syntax

section \<open>Values of the program\<close>

text \<open>
  The program is one Python module, \<^verbatim>\<open>database.py\<close>. A \<^verbatim>\<open>bytes\<close> object is a list of
  8-bit words. A \<^verbatim>\<open>str\<close> is a list of Unicode code points (natural numbers), since the
  string methods of the source (\<^verbatim>\<open>split\<close>, \<^verbatim>\<open>rstrip\<close>, \<^verbatim>\<open>rfind\<close>, slicing) count code
  points and not bytes. An exception is a value of type \<open>error\<close>; a call that may raise
  returns \<open>error + 'a\<close>, with \<open>Inl\<close> for the exception.
\<close>

type_synonym byte = "8 word"
type_synonym bytes = "byte list"
type_synonym str = "nat list"

datatype error =
    ValueError
  | TypeError
  | AttributeError
  | UnicodeEncodeError
  | Base64Error
  | NoSuchModuleError
  | SQLAlchemyError
  | NotModelled

definition lit :: "string \<Rightarrow> str" where
  \<comment> \<open>an ASCII string literal of the source, as code points\<close>
  "lit s = map of_char s"

section \<open>Strings\<close>

text \<open>
  The string operations of Python that the source calls, on code points: \<^verbatim>\<open>ord\<close>,
  \<^verbatim>\<open>s.split(sep, maxsplit)\<close> with a one-character separator, \<^verbatim>\<open>s.rstrip()\<close>,
  \<^verbatim>\<open>s.endswith(suffix)\<close>, \<^verbatim>\<open>s.rfind(c)\<close> with a one-character argument (the highest index
  of \<open>c\<close>, or \<open>-1\<close>), and the slice \<^verbatim>\<open>s[i:j]\<close>, whose bounds count from the end when
  negative and are clipped to the string. \<open>isspace\<close> holds of the code points that
  \<^verbatim>\<open>str.isspace\<close> accepts, which are the ones \<^verbatim>\<open>rstrip()\<close> removes.
\<close>

definition ord :: "char \<Rightarrow> nat" where
  "ord c = of_char c"

primrec split_max :: "nat \<Rightarrow> nat \<Rightarrow> str \<Rightarrow> str list" where
  "split_max sep 0 s = [s]"
| "split_max sep (Suc n) s =
     (if sep \<in> set s
      then takeWhile (\<lambda>c. c \<noteq> sep) s # split_max sep n (tl (dropWhile (\<lambda>c. c \<noteq> sep) s))
      else [s])"

definition isspace :: "nat \<Rightarrow> bool" where
  "isspace c \<longleftrightarrow>
     (9 \<le> c \<and> c \<le> 13) \<or> (28 \<le> c \<and> c \<le> 32) \<or> c = 133 \<or> c = 160 \<or> c = 5760 \<or>
     (8192 \<le> c \<and> c \<le> 8202) \<or> c = 8232 \<or> c = 8233 \<or> c = 8239 \<or> c = 8287 \<or> c = 12288"

definition rstrip :: "str \<Rightarrow> str" where
  "rstrip s = rev (dropWhile isspace (rev s))"

definition endswith :: "str \<Rightarrow> str \<Rightarrow> bool" where
  "endswith s suffix \<longleftrightarrow>
     length suffix \<le> length s \<and> drop (length s - length suffix) s = suffix"

definition rfind :: "str \<Rightarrow> nat \<Rightarrow> int" where
  "rfind s c =
     (if c \<in> set s then int (length s) - 1 - int (length (takeWhile (\<lambda>x. x \<noteq> c) (rev s)))
      else - 1)"

definition slice_index :: "nat \<Rightarrow> int \<Rightarrow> nat" where
  "slice_index len i = (if i < 0 then nat (max 0 (int len + i)) else min len (nat i))"

definition slice :: "str \<Rightarrow> int \<Rightarrow> int \<Rightarrow> str" where
  "slice s i j = (let a = slice_index (length s) i; b = slice_index (length s) j
                  in take (b - a) (drop a s))"

section \<open>The checksum functions\<close>

subsection \<open>\<^verbatim>\<open>cyclic_xor\<close>\<close>

text \<open>
  \<^verbatim>\<open>
  def cyclic_xor(data:bytes, key:bytes):
      return bytes(d ^ k for d, k in zip(data, itertools.cycle(key)))
  \<close>
  \<^verbatim>\<open>itertools.cycle\<close> yields the items of its argument while saving them, and then the
  saved items again and again; on an empty argument it yields nothing. \<open>cycle_from saved cur n\<close>
  is what it yields in its first \<open>n\<close> steps, with \<open>cur\<close> the rest of the current pass.
  \<^verbatim>\<open>zip\<close> stops with \<^verbatim>\<open>data\<close>, so \<open>length data\<close> steps are all it can ask for. Iterating
  over \<^verbatim>\<open>bytes\<close> gives integers, \<^verbatim>\<open>^\<close> is the xor of Python integers, and the constructor
  \<^verbatim>\<open>bytes(...)\<close> raises \<^verbatim>\<open>ValueError\<close> on an integer outside \<^verbatim>\<open>range(256)\<close>.
\<close>

primrec cycle_from :: "'a list \<Rightarrow> 'a list \<Rightarrow> nat \<Rightarrow> 'a list" where
  "cycle_from saved cur 0 = []"
| "cycle_from saved cur (Suc n) =
     (case cur of
        x # rest \<Rightarrow> x # cycle_from saved rest n
      | [] \<Rightarrow> (case saved of [] \<Rightarrow> [] | y # rest \<Rightarrow> y # cycle_from saved rest n))"

definition bytes_of_ints :: "int list \<Rightarrow> error + bytes" where
  "bytes_of_ints xs =
     (if list_all (\<lambda>x. 0 \<le> x \<and> x < 256) xs then Inr (map word_of_int xs) else Inl ValueError)"

definition cyclic_xor :: "bytes \<Rightarrow> bytes \<Rightarrow> error + bytes" where
  "cyclic_xor data key =
     bytes_of_ints (map (\<lambda>(d, k). d XOR k)
       (zip (map uint data) (cycle_from (map uint key) (map uint key) (length data))))"

subsection \<open>URL-safe base64\<close>

text \<open>
  \<^verbatim>\<open>base64.urlsafe_b64encode\<close> of the standard library (RFC 4648, section 5): three bytes
  become four characters of the alphabet \<^verbatim>\<open>A-Z a-z 0-9 - _\<close>, six bits each; a last group of
  one or two bytes is padded with \<^verbatim>\<open>=\<close>. \<open>b64_code n\<close> is the code of the \<open>n\<close>-th character
  of the alphabet. The six-bit groups are written with \<open>div\<close> and \<open>mod\<close> on the values
  of the bytes.

  \<open>urlsafe_b64decode\<close> is the library's decoder on what the encoder produces: groups of
  four characters of the alphabet, the last one possibly padded. On any other input it
  answers \<open>Base64Error\<close>, where the library is more lenient (it skips characters outside
  the alphabet); no property below decodes such an input.
\<close>

definition b64_pad :: byte where
  "b64_pad = 61"

definition b64_code :: "nat \<Rightarrow> nat" where
  "b64_code n =
     (if n < 26 then n + 65 else if n < 52 then n + 71 else if n < 62 then n - 4
      else if n = 62 then 45 else 95)"

definition b64_char :: "nat \<Rightarrow> byte" where
  "b64_char n = of_nat (b64_code n)"

definition b64_index :: "byte \<Rightarrow> nat option" where
  "b64_index c =
     (let v = unat c in
      if 65 \<le> v \<and> v \<le> 90 then Some (v - 65)
      else if 97 \<le> v \<and> v \<le> 122 then Some (v - 71)
      else if 48 \<le> v \<and> v \<le> 57 then Some (v + 4)
      else if v = 45 then Some 62
      else if v = 95 then Some 63
      else None)"

fun urlsafe_b64encode :: "bytes \<Rightarrow> bytes" where
  "urlsafe_b64encode [] = []"
| "urlsafe_b64encode [a] =
     [b64_char (unat a div 4), b64_char (unat a mod 4 * 16), b64_pad, b64_pad]"
| "urlsafe_b64encode [a, b] =
     [b64_char (unat a div 4), b64_char (unat a mod 4 * 16 + unat b div 16),
      b64_char (unat b mod 16 * 4), b64_pad]"
| "urlsafe_b64encode (a # b # c # rest) =
     b64_char (unat a div 4) # b64_char (unat a mod 4 * 16 + unat b div 16) #
     b64_char (unat b mod 16 * 4 + unat c div 64) # b64_char (unat c mod 64) #
     urlsafe_b64encode rest"

fun urlsafe_b64decode :: "bytes \<Rightarrow> error + bytes" where
  "urlsafe_b64decode [] = Inr []"
| "urlsafe_b64decode (c1 # c2 # c3 # c4 # rest) =
     (case (b64_index c1, b64_index c2) of
        (Some s1, Some s2) \<Rightarrow>
          if c3 = b64_pad \<and> c4 = b64_pad \<and> rest = []
          then Inr [of_nat (s1 * 4 + s2 div 16)]
          else (case b64_index c3 of
            Some s3 \<Rightarrow>
              if c4 = b64_pad \<and> rest = []
              then Inr [of_nat (s1 * 4 + s2 div 16), of_nat (s2 mod 16 * 16 + s3 div 4)]
              else (case b64_index c4 of
                Some s4 \<Rightarrow>
                  (case urlsafe_b64decode rest of
                     Inr bs \<Rightarrow> Inr (of_nat (s1 * 4 + s2 div 16) #
                                   of_nat (s2 mod 16 * 16 + s3 div 4) #
                                   of_nat (s3 mod 4 * 64 + s4) # bs)
                   | Inl e \<Rightarrow> Inl e)
              | None \<Rightarrow> Inl Base64Error)
          | None \<Rightarrow> Inl Base64Error)
      | _ \<Rightarrow> Inl Base64Error)"
| "urlsafe_b64decode _ = Inl Base64Error"

subsection \<open>\<^verbatim>\<open>xor_encode\<close>\<close>

text \<open>
  \<^verbatim>\<open>
  def xor_encode(data:bytes, key:bytes):
      return base64.urlsafe_b64encode(cyclic_xor(data, key))
  \<close>
\<close>

definition xor_encode :: "bytes \<Rightarrow> bytes \<Rightarrow> error + bytes" where
  "xor_encode data key =
     (case cyclic_xor data key of Inl e \<Rightarrow> Inl e | Inr x \<Rightarrow> Inr (urlsafe_b64encode x))"

subsection \<open>SHA-1\<close>

text \<open>
  \<^verbatim>\<open>hashlib.sha1\<close> (FIPS 180-4) on byte sequences: the message is padded with the byte
  \<^verbatim>\<open>0x80\<close>, zero bytes up to 56 modulo 64, and its length in bits as a 64-bit big-endian
  number; each block of 64 bytes is read as sixteen 32-bit big-endian words, extended to
  eighty, and fed to eighty rounds. \<^verbatim>\<open>hexdigest()\<close> writes the twenty bytes of the digest
  as forty lower-case hexadecimal digits.
\<close>

type_synonym word32 = "32 word"

type_synonym sha1_state = "word32 \<times> word32 \<times> word32 \<times> word32 \<times> word32"

definition rotl32 :: "nat \<Rightarrow> word32 \<Rightarrow> word32" where
  "rotl32 n w = push_bit n w OR drop_bit (32 - n) w"

definition be32 :: "bytes \<Rightarrow> word32" where
  "be32 bs = foldl (\<lambda>acc b. push_bit 8 acc OR ucast b) 0 bs"

definition bytes_of_word32 :: "word32 \<Rightarrow> bytes" where
  "bytes_of_word32 w =
     [ucast (drop_bit 24 w), ucast (drop_bit 16 w), ucast (drop_bit 8 w), ucast w]"

definition bytes_of_word64 :: "64 word \<Rightarrow> bytes" where
  "bytes_of_word64 w = map (\<lambda>i. ucast (drop_bit (8 * (7 - i)) w)) [0..<8]"

definition sha1_pad :: "bytes \<Rightarrow> bytes" where
  "sha1_pad m =
     m @ [128] @ replicate ((119 - length m mod 64) mod 64) 0
       @ bytes_of_word64 (of_nat (8 * length m))"

definition sha1_blocks :: "bytes \<Rightarrow> bytes list" where
  "sha1_blocks bs = map (\<lambda>i. take 64 (drop (64 * i) bs)) [0..<length bs div 64]"

definition block_words :: "bytes \<Rightarrow> word32 list" where
  "block_words block = map (\<lambda>i. be32 (take 4 (drop (4 * i) block))) [0..<16]"

primrec sha1_schedule :: "nat \<Rightarrow> word32 list \<Rightarrow> word32 list" where
  "sha1_schedule 0 w = w"
| "sha1_schedule (Suc n) w =
     (let t = length w in
      sha1_schedule n
        (w @ [rotl32 1 (w ! (t - 3) XOR w ! (t - 8) XOR w ! (t - 14) XOR w ! (t - 16))]))"

definition sha1_round :: "word32 list \<Rightarrow> nat \<Rightarrow> sha1_state \<Rightarrow> sha1_state" where
  "sha1_round w t = (\<lambda>(a, b, c, d, e).
     let f = (if t < 20 then (b AND c) OR (NOT b AND d)
              else if t < 40 then b XOR c XOR d
              else if t < 60 then (b AND c) OR (b AND d) OR (c AND d)
              else b XOR c XOR d);
         k = (if t < 20 then 0x5A827999 else if t < 40 then 0x6ED9EBA1
              else if t < 60 then 0x8F1BBCDC else 0xCA62C1D6)
     in (rotl32 5 a + f + e + k + w ! t, a, rotl32 30 b, c, d))"

definition sha1_compress :: "sha1_state \<Rightarrow> bytes \<Rightarrow> sha1_state" where
  "sha1_compress h block =
     (case (h, fold (sha1_round (sha1_schedule 64 (block_words block))) [0..<80] h) of
        ((h0, h1, h2, h3, h4), (a, b, c, d, e)) \<Rightarrow> (h0 + a, h1 + b, h2 + c, h3 + d, h4 + e))"

definition sha1_init :: sha1_state where
  "sha1_init = (0x67452301, 0xEFCDAB89, 0x98BADCFE, 0x10325476, 0xC3D2E1F0)"

definition sha1 :: "bytes \<Rightarrow> bytes" where
  "sha1 m = (case foldl sha1_compress sha1_init (sha1_blocks (sha1_pad m)) of
               (h0, h1, h2, h3, h4) \<Rightarrow> concat (map bytes_of_word32 [h0, h1, h2, h3, h4]))"

definition hex_digit :: "nat \<Rightarrow> nat" where
  "hex_digit n = (if n < 10 then 48 + n else 87 + n)"

definition hexdigest :: "bytes \<Rightarrow> str" where
  "hexdigest bs = concat (map (\<lambda>b. [hex_digit (unat b div 16), hex_digit (unat b mod 16)]) bs)"

subsection \<open>Text to bytes\<close>

text \<open>
  \<^verbatim>\<open>s.encode("utf-8")\<close>: one to four bytes for a code point; a surrogate
  (\<^verbatim>\<open>U+D800\<close> to \<^verbatim>\<open>U+DFFF\<close>), which a Python \<^verbatim>\<open>str\<close> can hold, raises
  \<^verbatim>\<open>UnicodeEncodeError\<close>. \<open>ascii\<close> is a bytes literal of the source.
\<close>

definition ascii :: "string \<Rightarrow> bytes" where
  "ascii s = map of_char s"

definition utf8_encode_char :: "nat \<Rightarrow> error + bytes" where
  "utf8_encode_char c =
     (if c < 0x80 then Inr [of_nat c]
      else if c < 0x800 then Inr [of_nat (0xC0 + c div 64), of_nat (0x80 + c mod 64)]
      else if 0xD800 \<le> c \<and> c \<le> 0xDFFF then Inl UnicodeEncodeError
      else if c < 0x10000
      then Inr [of_nat (0xE0 + c div 4096), of_nat (0x80 + c div 64 mod 64),
                of_nat (0x80 + c mod 64)]
      else Inr [of_nat (0xF0 + c div 262144), of_nat (0x80 + c div 4096 mod 64),
                of_nat (0x80 + c div 64 mod 64), of_nat (0x80 + c mod 64)])"

primrec encode_utf8 :: "str \<Rightarrow> error + bytes" where
  "encode_utf8 [] = Inr []"
| "encode_utf8 (c # cs) =
     (case utf8_encode_char c of
        Inl e \<Rightarrow> Inl e
      | Inr bs \<Rightarrow> (case encode_utf8 cs of Inl e \<Rightarrow> Inl e | Inr rest \<Rightarrow> Inr (bs @ rest)))"

subsection \<open>\<^verbatim>\<open>generate_chk\<close> and \<^verbatim>\<open>comment_chk\<close>\<close>

text \<open>
  \<^verbatim>\<open>
  def generate_chk(value:bytes, key:bytes, salt:bytes):
      return xor_encode(hashlib.sha1(value + salt).hexdigest().encode(), key)

  def comment_chk(username, content, id = 0, percentage = 0, comment_type = 0):
      return generate_chk(
          f"{username}{content}{id}{percentage}{comment_type}".encode("utf-8"),
          b"29481", b"xPT6iUrtws0J")
  \<close>
  The arguments of \<^verbatim>\<open>comment_chk\<close> are Python values (the annotations allow \<^verbatim>\<open>str\<close> and
  \<^verbatim>\<open>int\<close>, and nothing is checked); \<open>format_value\<close> is what an f-string writes for
  one: the text itself for a \<^verbatim>\<open>str\<close>, the decimal digits for an \<^verbatim>\<open>int\<close>, the
  \<^verbatim>\<open>repr\<close> for \<^verbatim>\<open>bytes\<close>.
\<close>

definition generate_chk :: "bytes \<Rightarrow> bytes \<Rightarrow> bytes \<Rightarrow> error + bytes" where
  "generate_chk value key salt =
     (case encode_utf8 (hexdigest (sha1 (value @ salt))) of
        Inl e \<Rightarrow> Inl e
      | Inr digest \<Rightarrow> xor_encode digest key)"

datatype pyvalue = NoneV | BoolV bool | IntV int | StrV str | BytesV bytes

fun decimal :: "nat \<Rightarrow> str" where
  "decimal n = (if n < 10 then [48 + n] else decimal (n div 10) @ [48 + n mod 10])"

definition str_of_int :: "int \<Rightarrow> str" where
  "str_of_int i = (if i < 0 then 45 # decimal (nat (- i)) else decimal (nat i))"

definition repr_byte :: "nat \<Rightarrow> byte \<Rightarrow> str" where
  "repr_byte quote b =
     (let c = unat b in
      if c = quote \<or> c = 92 then [92, c]
      else if c = 9 then [92, 116]
      else if c = 10 then [92, 110]
      else if c = 13 then [92, 114]
      else if c < 32 \<or> 127 \<le> c then [92, 120, hex_digit (c div 16), hex_digit (c mod 16)]
      else [c])"

definition repr_bytes :: "bytes \<Rightarrow> str" where
  "repr_bytes bs =
     (let quote = (if 39 \<in> set bs \<and> 34 \<notin> set bs then 34 else 39)
      in [98, quote] @ concat (map (repr_byte quote) bs) @ [quote])"

fun format_value :: "pyvalue \<Rightarrow> str" where
  "format_value NoneV = lit ''None''"
| "format_value (BoolV b) = (if b then lit ''True'' else lit ''False'')"
| "format_value (IntV i) = str_of_int i"
| "format_value (StrV s) = s"
| "format_value (BytesV bs) = repr_bytes bs"

definition comment_chk ::
  "pyvalue \<Rightarrow> pyvalue \<Rightarrow> pyvalue \<Rightarrow> pyvalue \<Rightarrow> pyvalue \<Rightarrow> error + bytes" where
  "comment_chk username content id' percentage comment_type =
     (case encode_utf8 (format_value username @ format_value content @ format_value id'
                          @ format_value percentage @ format_value comment_type) of
        Inl e \<Rightarrow> Inl e
      | Inr value \<Rightarrow> generate_chk value (ascii ''29481'') (ascii ''xPT6iUrtws0J''))"

section \<open>The ban text\<close>

text \<open>
  \<^verbatim>\<open>
  def parse_ban(raw_ban_str:str):
      temp, length , reason = raw_ban_str.split("_", 2)
      reason = reason.rstrip()
      if reason.endswith(")") and reason.rfind("(") != -1:
          user = reason[reason.rfind("(") + 1 :reason.rfind(")")]
          return user
  \<close>
  The unpacking into three names raises \<^verbatim>\<open>ValueError\<close> when \<^verbatim>\<open>split\<close> returns fewer than
  three parts (it never returns more, since \<^verbatim>\<open>maxsplit\<close> is 2). Falling off the end of
  the function returns \<^verbatim>\<open>None\<close>.
\<close>

definition parse_ban :: "str \<Rightarrow> error + str option" where
  "parse_ban raw_ban_str =
     (case split_max (ord CHR ''_'') 2 raw_ban_str of
        [temp, length', reason] \<Rightarrow>
          (let reason = rstrip reason in
           if endswith reason (lit '')'') \<and> rfind reason (ord CHR ''('') \<noteq> - 1
           then Inr (Some (slice reason (rfind reason (ord CHR ''('') + 1)
                                        (rfind reason (ord CHR '')''))))
           else Inr None)
      | _ \<Rightarrow> Inl ValueError)"

section \<open>The data model\<close>

text \<open>
  \<^verbatim>\<open>
  class IDModel(SQLModel):
      id:Optional[int] = Field(primary_key=True, default=None)

  class User(IDModel, table=True):
      name:str
      password:bytes
      accountID:int
      bans:list["Ban"] = Relationship(back_populates="user")

  class Ban(IDModel, table=True):
      host:str = Field(unique=True)
      raw_ban_str:str
      real_user:Optional[str] = None
      user:Optional[User] = Relationship(back_populates="bans")
      user_id:Optional[int] = Relationship(back_populates="user.id")
  \<close>
  A record per class, a field per column. The field \<open>User_password\<close> and the field
  \<open>User_accountID\<close> may hold \<^verbatim>\<open>None\<close>, which the property \<^verbatim>\<open>isabstract\<close> tests for, and so
  may \<open>Ban_host\<close>, since the host that the URL parser returns may be \<^verbatim>\<open>None\<close>. The three
  attributes declared with \<^verbatim>\<open>Relationship\<close>, among them \<^verbatim>\<open>Ban.user_id\<close>, are not columns; no
  field of either class is declared as a foreign key. They are listed in
  \<open>declared_relationships\<close> below.
\<close>

record User =
  User_id :: "nat option"
  User_name :: str
  User_password :: "bytes option"
  User_accountID :: "int option"

record Ban =
  Ban_id :: "nat option"
  Ban_host :: "str option"
  Ban_raw_ban_str :: str
  Ban_real_user :: "str option"

subsection \<open>The methods of \<^verbatim>\<open>User\<close>\<close>

text \<open>
  \<^verbatim>\<open>
  @property
  def gjp2(self):
      return sha1(self.password + b"mI29fmAnxgTs").hexdigest()

  def level_comment_chk(self, b64_content:str, levelID:Union[int, str]):
      return comment_chk(self.username, b64_content, id=levelID, comment_type=1)

  def profile_comment_chk(self, b64_content:str):
      return comment_chk(self.username, b64_content, id=0, comment_type=0)

  @property
  def isabstract(self):
      return self.password is None and self.accountID is None
  \<close>
  \<^verbatim>\<open>None + b"..."\<close> raises \<^verbatim>\<open>TypeError\<close>. \<open>getattr_User u a\<close> is the attribute read
  \<^verbatim>\<open>u.a\<close>: the four columns and the two properties give their values, and a name that the
  class does not define raises \<^verbatim>\<open>AttributeError\<close>. The relationship \<^verbatim>\<open>bans\<close> and the two
  methods are attributes too, but their values are not data; the model has no value for
  them and says so with \<open>NotModelled\<close>. The attributes that \<^verbatim>\<open>User\<close> inherits from
  \<^verbatim>\<open>SQLModel\<close> are left out; none of them is called \<^verbatim>\<open>username\<close>.
\<close>

definition gjp2_salt :: bytes where
  "gjp2_salt = ascii ''mI29fmAnxgTs''"

definition gjp2 :: "User \<Rightarrow> error + str" where
  "gjp2 self =
     (case User_password self of
        None \<Rightarrow> Inl TypeError
      | Some password \<Rightarrow> Inr (hexdigest (sha1 (password @ gjp2_salt))))"

definition isabstract :: "User \<Rightarrow> bool" where
  "isabstract self \<longleftrightarrow> User_password self = None \<and> User_accountID self = None"

definition getattr_User :: "User \<Rightarrow> string \<Rightarrow> error + pyvalue" where
  "getattr_User self a =
     (if a = ''id'' then Inr (case User_id self of None \<Rightarrow> NoneV | Some i \<Rightarrow> IntV (int i))
      else if a = ''name'' then Inr (StrV (User_name self))
      else if a = ''password''
      then Inr (case User_password self of None \<Rightarrow> NoneV | Some p \<Rightarrow> BytesV p)
      else if a = ''accountID''
      then Inr (case User_accountID self of None \<Rightarrow> NoneV | Some i \<Rightarrow> IntV i)
      else if a = ''gjp2'' then (case gjp2 self of Inl e \<Rightarrow> Inl e | Inr d \<Rightarrow> Inr (StrV d))
      else if a = ''isabstract'' then Inr (BoolV (isabstract self))
      else if a = ''bans'' \<or> a = ''level_comment_chk'' \<or> a = ''profile_comment_chk''
      then Inl NotModelled
      else Inl AttributeError)"

definition level_comment_chk :: "User \<Rightarrow> pyvalue \<Rightarrow> pyvalue \<Rightarrow> error + bytes" where
  "level_comment_chk self b64_content levelID =
     (case getattr_User self ''username'' of
        Inl e \<Rightarrow> Inl e
      | Inr username \<Rightarrow> comment_chk username b64_content levelID (IntV 0) (IntV 1))"

definition profile_comment_chk :: "User \<Rightarrow> pyvalue \<Rightarrow> error + bytes" where
  "profile_comment_chk self b64_content =
     (case getattr_User self ''username'' of
        Inl e \<Rightarrow> Inl e
      | Inr username \<Rightarrow> comment_chk username b64_content (IntV 0) (IntV 0) (IntV 0))"

section \<open>The database\<close>

subsection \<open>The object and its set-up\<close>

text \<open>
  \<^verbatim>\<open>
  @attrs.define
  class Database:
      name:str = "bots.db"
      engine:AsyncEngine = attrs.field(init=False)
      initalized:bool = attrs.field(init=False, default=False)
      maker:async_sessionmaker[AsyncSession] = attrs.field(init=False)

      def __attrs_post_init__(self):
          self.engine = create_async_engine("aiosqlite+sqlite:///%s" % self.name)
          self.maker = async_sessionmaker(self.engine, class_=AsyncSession)
  \<close>
  The state of a \<^verbatim>\<open>Database\<close> object that the methods read and write is its name and the
  flag \<^verbatim>\<open>initalized\<close>. \<open>Database_new name\<close> is the call \<^verbatim>\<open>Database(name)\<close>, which runs
  \<^verbatim>\<open>__attrs_post_init__\<close>.

  \<^verbatim>\<open>create_async_engine(url)\<close> belongs to SQLAlchemy. The text of the URL before \<^verbatim>\<open>://\<close> is
  \<^verbatim>\<open>dialect+driver\<close>, and the dialect is looked up among the dialects that SQLAlchemy
  ships (no plugin registers another one under the name used here); an unknown one raises
  \<^verbatim>\<open>NoSuchModuleError\<close>. What happens for a known dialect (the driver is loaded and must be
  an asynchronous one) is not followed: the model answers \<open>NotModelled\<close> there.
\<close>

record Database =
  Database_name :: str
  initalized :: bool

definition sqlalchemy_dialects :: "str list" where
  "sqlalchemy_dialects =
     map lit [''sqlite'', ''postgresql'', ''mysql'', ''mariadb'', ''oracle'', ''mssql'']"

definition create_async_engine :: "str \<Rightarrow> error + unit" where
  "create_async_engine url =
     (let drivername = takeWhile (\<lambda>c. c \<noteq> ord CHR '':'') url;
          dialect = takeWhile (\<lambda>c. c \<noteq> ord CHR ''+'') drivername
      in if dialect \<in> set sqlalchemy_dialects then Inl NotModelled else Inl NoSuchModuleError)"

definition Database_new :: "str \<Rightarrow> error + Database" where
  "Database_new name =
     (case create_async_engine (lit ''aiosqlite+sqlite:///'' @ name) of
        Inl e \<Rightarrow> Inl e
      | Inr engine \<Rightarrow> Inr \<lparr>Database_name = name, initalized = False\<rparr>)"

text \<open>
  \<^verbatim>\<open>
  async def init_db(self):
      if not self.initalized:
          async with self.maker() as s:
              await s.run_sync(IDModel.metadata.create_all())
              await s.commit()
          self.initalized = True

  @asynccontextmanager
  async def session(self):
      if not self.initalized:
          await self.init_db()
      async with self.maker() as s:
          yield s
  \<close>
  \<^verbatim>\<open>MetaData.create_all(bind)\<close> has the required argument \<^verbatim>\<open>bind\<close>: \<open>create_all None\<close> is the
  call without it, which raises \<^verbatim>\<open>TypeError\<close>; with it the call returns \<^verbatim>\<open>None\<close>. The argument
  of \<^verbatim>\<open>run_sync\<close> is evaluated before the call, and \<^verbatim>\<open>run_sync(fn)\<close> calls \<^verbatim>\<open>fn\<close>; what it is
  given here is the \<^verbatim>\<open>None\<close> that \<^verbatim>\<open>create_all\<close> returns, and calling \<^verbatim>\<open>None\<close> raises
  \<^verbatim>\<open>TypeError\<close>. An exception leaves the flag as it was. \<open>session self\<close> is entering
  \<^verbatim>\<open>async with self.session() as s\<close>: it returns the object, with its flag set, once the
  session is open.
\<close>

definition create_all :: "unit option \<Rightarrow> error + unit" where
  "create_all bind = (case bind of None \<Rightarrow> Inl TypeError | Some b \<Rightarrow> Inr ())"

definition run_sync :: "unit \<Rightarrow> error + unit" where
  "run_sync fn = Inl TypeError"

definition init_db :: "Database \<Rightarrow> error + Database" where
  "init_db self =
     (if \<not> initalized self
      then (case create_all None of
              Inl e \<Rightarrow> Inl e
            | Inr fn \<Rightarrow>
                (case run_sync fn of
                   Inl e \<Rightarrow> Inl e
                 | Inr done \<Rightarrow> Inr (self\<lparr>initalized := True\<rparr>)))
      else Inr self)"

definition session :: "Database \<Rightarrow> error + Database" where
  "session self = (if \<not> initalized self then init_db self else Inr self)"

subsection \<open>The mapping of the classes\<close>

text \<open>
  SQLAlchemy configures the mappers of all mapped classes together, the first time an
  instance of one is built or a statement on one is executed. Every attribute declared
  with \<^verbatim>\<open>Relationship\<close> must then point to a mapped class, and a foreign key must link the
  tables of the two classes; otherwise the configuration raises (\<^verbatim>\<open>ArgumentError\<close> the
  first time, \<^verbatim>\<open>InvalidRequestError\<close> on every later attempt; both are
  \<^verbatim>\<open>SQLAlchemyError\<close>). A relationship is written here as the class that declares it, its
  name, and the class of its annotation: \<^verbatim>\<open>list["Ban"]\<close>, \<^verbatim>\<open>Optional[User]\<close> and
  \<^verbatim>\<open>Optional[int]\<close> in the source. The source declares no foreign key.

  With a mapping that cannot be configured, no statement of a method reaches the
  tables. What the statements after that point would do on tables that fit the classes is
  not a behaviour of this code, and the methods below answer \<open>NotModelled\<close> for it.
\<close>

definition mapped_classes :: "string list" where
  "mapped_classes = [''User'', ''Ban'']"

definition declared_relationships :: "(string \<times> string \<times> string) list" where
  "declared_relationships =
     [(''User'', ''bans'', ''Ban''), (''Ban'', ''user'', ''User''), (''Ban'', ''user_id'', ''int'')]"

definition declared_foreign_keys :: "(string \<times> string) list" where
  "declared_foreign_keys = []"

definition relationship_ok :: "string \<times> string \<times> string \<Rightarrow> bool" where
  "relationship_ok r =
     (case r of (owner, attribute, target) \<Rightarrow>
        target \<in> set mapped_classes \<and>
        ((owner, target) \<in> set declared_foreign_keys
           \<or> (target, owner) \<in> set declared_foreign_keys))"

definition configure_mappers :: "error + unit" where
  "configure_mappers =
     (if list_all relationship_ok declared_relationships then Inr () else Inl SQLAlchemyError)"

subsection \<open>The methods of \<^verbatim>\<open>Database\<close>\<close>

text \<open>
  A method returns its outcome together with the object after it, since entering a session
  may set the flag.
  \<^verbatim>\<open>
  def fix_skid_proxy(ip:str):
      return f"all://{ip}" if "://" not in ip else ip

  async def proxy_is_banned(self, proxy:str):
      proxy = fix_skid_proxy(proxy)
      host = urlparse(proxy).hostname
      async with self.session() as s:
          result = await s.exec(select(Ban).where(Ban.host == host))
          ban = result.one_or_none()
      return ban
  \<close>
  \<^verbatim>\<open>urlparse(url).hostname\<close> belongs to the standard library; it returns a host name or
  \<^verbatim>\<open>None\<close>, or raises. The methods take it as the parameter \<open>hostname\<close>, so that what
  is proved of them holds for whatever the parser does. Executing the statement configures
  the mappers.
\<close>

primrec contains :: "str \<Rightarrow> str \<Rightarrow> bool" where
  "contains sub [] \<longleftrightarrow> sub = []"
| "contains sub (c # cs) \<longleftrightarrow> take (length sub) (c # cs) = sub \<or> contains sub cs"

definition fix_skid_proxy :: "str \<Rightarrow> str" where
  "fix_skid_proxy ip = (if \<not> contains (lit ''://'') ip then lit ''all://'' @ ip else ip)"

definition proxy_is_banned ::
  "(str \<Rightarrow> error + str option) \<Rightarrow> Database \<Rightarrow> str \<Rightarrow> (error + Ban option) \<times> Database" where
  "proxy_is_banned hostname self proxy =
     (case hostname (fix_skid_proxy proxy) of
        Inl e \<Rightarrow> (Inl e, self)
      | Inr host \<Rightarrow>
          (case session self of
             Inl e \<Rightarrow> (Inl e, self)
           | Inr self' \<Rightarrow>
               (case configure_mappers of
                  Inl e \<Rightarrow> (Inl e, self')
                | Inr mapped \<Rightarrow> (Inl NotModelled, self'))))"

text \<open>
  \<^verbatim>\<open>
  async def new_bot_account(self, username:str, password:str, accountID:int):
      async with self.session() as s:
          result = await s.merge(User(name=username, password=password.encode("utf-8"),
                                      accountID=accountID))
          await s.commit()
      return result

  async def get_bot(self, username:str):
      async with self.session() as s:
          result = await s.exec(select(User).where(User.name == username))
          user = result.one_or_none()
      return user
  \<close>
  The session is entered first; then the arguments of \<^verbatim>\<open>User(...)\<close> are evaluated, and
  building the instance configures the mappers.
\<close>

definition new_bot_account ::
  "Database \<Rightarrow> str \<Rightarrow> str \<Rightarrow> int \<Rightarrow> (error + User) \<times> Database" where
  "new_bot_account self username password accountID =
     (case session self of
        Inl e \<Rightarrow> (Inl e, self)
      | Inr self' \<Rightarrow>
          (case encode_utf8 password of
             Inl e \<Rightarrow> (Inl e, self')
           | Inr pw \<Rightarrow>
               (case configure_mappers of
                  Inl e \<Rightarrow> (Inl e, self')
                | Inr mapped \<Rightarrow> (Inl NotModelled, self'))))"

definition get_bot :: "Database \<Rightarrow> str \<Rightarrow> (error + User option) \<times> Database" where
  "get_bot self username =
     (case session self of
        Inl e \<Rightarrow> (Inl e, self)
      | Inr self' \<Rightarrow>
          (case configure_mappers of
             Inl e \<Rightarrow> (Inl e, self')
           | Inr mapped \<Rightarrow> (Inl NotModelled, self')))"

text \<open>
  \<^verbatim>\<open>
  async def issue_ban(self, ban_str:str, caused_by:User, proxy:str):
      async with self.session() as s:
          await s.merge(
              Ban(host=urlparse(fix_skid_proxy(proxy)).hostname,
                  raw_ban_str=ban_str,
                  real_user=parse_ban(ban_str),
                  user=caused_by))
          await s.commit()
  \<close>
  The session is entered first. The arguments of \<^verbatim>\<open>Ban(...)\<close> are evaluated in their
  order, so the host is parsed before the ban text, and both before the instance is
  built, which configures the mappers.
\<close>

definition issue_ban ::
  "(str \<Rightarrow> error + str option) \<Rightarrow> Database \<Rightarrow> str \<Rightarrow> User option \<Rightarrow> str
     \<Rightarrow> (error + unit) \<times> Database" where
  "issue_ban hostname self ban_str caused_by proxy =
     (case session self of
        Inl e \<Rightarrow> (Inl e, self)
      | Inr self' \<Rightarrow>
          (case hostname (fix_skid_proxy proxy) of
             Inl e \<Rightarrow> (Inl e, self')
           | Inr host \<Rightarrow>
               (case parse_ban ban_str of
                  Inl e \<Rightarrow> (Inl e, self')
                | Inr real_user \<Rightarrow>
                    (case configure_mappers of
                       Inl e \<Rightarrow> (Inl e, self')
                     | Inr mapped \<Rightarrow> (Inl NotModelled, self')))))"

text \<open>
  \<^verbatim>\<open>
  async def user_is_banned(self, username:str):
      async with self.session() as s:
          result = await s.exec(select(User).where(User.name == username))
          user = result.one_or_none()
          if user.bans:
              return True
          result2 = await s.exec(select(Ban).where(Ban.real_user == username))
          if result2.one_or_none():
              return True
      return False
  \<close>
  The first statement that is executed configures the mappers.
\<close>

definition user_is_banned :: "Database \<Rightarrow> str \<Rightarrow> (error + bool) \<times> Database" where
  "user_is_banned self username =
     (case session self of
        Inl e \<Rightarrow> (Inl e, self)
      | Inr self' \<Rightarrow>
          (case configure_mappers of
             Inl e \<Rightarrow> (Inl e, self')
           | Inr mapped \<Rightarrow> (Inl NotModelled, self')))"

text \<open>
  \<^verbatim>\<open>
  async def user_and_proxy_are_banned(self, username:str, proxy:str):
      if await self.proxy_is_banned(proxy):
          return True
      if await self.user_is_banned(username):
          return True
      return False
  \<close>
\<close>

definition user_and_proxy_are_banned ::
  "(str \<Rightarrow> error + str option) \<Rightarrow> Database \<Rightarrow> str \<Rightarrow> str \<Rightarrow> (error + bool) \<times> Database" where
  "user_and_proxy_are_banned hostname self username proxy =
     (case proxy_is_banned hostname self proxy of
        (Inl e, self') \<Rightarrow> (Inl e, self')
      | (Inr (Some ban), self') \<Rightarrow> (Inr True, self')
      | (Inr None, self') \<Rightarrow>
          (case user_is_banned self' username of
             (Inl e, self'') \<Rightarrow> (Inl e, self'')
           | (Inr banned, self'') \<Rightarrow> (if banned then Inr True else Inr False, self'')))"

section \<open>Properties\<close>

subsection \<open>\<^verbatim>\<open>cyclic_xor\<close>\<close>

lemma cycle_from_map: "cycle_from (map f s) (map f c) n = map f (cycle_from s c n)"
  by (induction n arbitrary: c) (auto split: list.splits)

lemma length_cycle_from: "s \<noteq> [] \<Longrightarrow> length (cycle_from s c n) = n"
  by (induction n arbitrary: c) (auto split: list.splits)

lemma cycle_from_Nil: "cycle_from [] [] n = []"
  by (cases n) auto

lemma uint_xor_range: "0 \<le> uint (d::byte) XOR uint (k::byte) \<and> uint d XOR uint k < 256"
proof -
  have "uint d XOR uint k = uint (d XOR k)" by (simp add: uint_xor)
  moreover have "uint (d XOR k) < 2 ^ LENGTH(8)" by (rule uint_lt2p)
  ultimately show ?thesis by simp
qed

lemma bytes_of_ints_xor:
  "bytes_of_ints (map (\<lambda>(d, k). d XOR k) (zip (map uint ds) (map uint ks)))
     = Inr (map (\<lambda>(d, k). d XOR k) (zip ds ks))"
proof -
  have "list_all (\<lambda>x. 0 \<le> x \<and> x < 256)
          (map (\<lambda>(d, k). d XOR k) (zip (map uint ds) (map uint ks)))"
    unfolding zip_map_map list_all_iff using uint_xor_range by auto
  moreover have "map word_of_int (map (\<lambda>(d, k). d XOR k) (zip (map uint ds) (map uint ks)))
     = map (\<lambda>(d, k). d XOR k) (zip ds ks)"
    unfolding zip_map_map by (simp add: case_prod_beta flip: uint_xor)
  ultimately show ?thesis by (simp add: bytes_of_ints_def)
qed

text \<open>The call never raises: byte for byte, it is the xor with the cycled key.\<close>

lemma cyclic_xor_eq:
  "cyclic_xor data key =
     Inr (map (\<lambda>(d, k). d XOR k) (zip data (cycle_from key key (length data))))"
  unfolding cyclic_xor_def cycle_from_map by (rule bytes_of_ints_xor)

lemma zip_xor_twice:
  "length ks = length ds \<Longrightarrow>
   map (\<lambda>(d, k). d XOR k) (zip (map (\<lambda>(d, k). d XOR k) (zip ds ks)) ks) = (ds :: bytes)"
  by (induction ds ks rule: list_induct2') (auto simp: xor.assoc)

text \<open>
  Claim C6. For every byte sequence \<open>data\<close> and every non-empty \<open>key\<close>, applying
  \<^verbatim>\<open>cyclic_xor\<close> twice with the same key gives \<open>data\<close> back: the first call returns some
  \<open>e\<close>, and the call on \<open>e\<close> returns \<open>data\<close>.
\<close>

theorem cyclic_xor_involution:
  assumes "key \<noteq> []"
  shows "\<exists>e. cyclic_xor data key = Inr e \<and> cyclic_xor e key = Inr data"
proof -
  let ?ks = "cycle_from key key (length data)"
  let ?e = "map (\<lambda>(d, k). d XOR k) (zip data ?ks)"
  have len: "length ?ks = length data" using assms by (rule length_cycle_from)
  then have "length ?e = length data" by simp
  then have "cyclic_xor ?e key = Inr (map (\<lambda>(d, k). d XOR k) (zip ?e ?ks))"
    by (simp only: cyclic_xor_eq)
  also have "\<dots> = Inr data" using len by (simp only: zip_xor_twice)
  finally show ?thesis using cyclic_xor_eq by blast
qed

theorem cyclic_xor_involution_witness:
  "[7, 9] \<noteq> ([] :: bytes) \<and>
   (\<exists>e. cyclic_xor [1, 2, 3] [7, 9] = Inr e \<and> cyclic_xor e [7, 9] = Inr [1, 2, 3])"
  using cyclic_xor_involution [of "[7, 9]" "[1, 2, 3]"] by simp

text \<open>
  Claim C9, as the code has it. With an empty key \<^verbatim>\<open>itertools.cycle\<close> yields nothing, \<^verbatim>\<open>zip\<close>
  stops at once and \<^verbatim>\<open>cyclic_xor\<close> returns the empty byte sequence for every \<open>data\<close>; it
  does not raise.
\<close>

theorem cyclic_xor_empty_key: "cyclic_xor data [] = Inr []"
  by (simp add: cyclic_xor_eq cycle_from_Nil)

text \<open>
  Claim C9 as stated fails: on the one-byte sequence \<open>[1]\<close> and the empty key the call
  returns \<^verbatim>\<open>b''\<close>, which is not an exception.
\<close>

theorem cyclic_xor_empty_key_counterexample:
  "cyclic_xor [1] [] = Inr [] \<and> \<not> isl (cyclic_xor [1] [])"
  by (simp add: cyclic_xor_def bytes_of_ints_def)

subsection \<open>\<^verbatim>\<open>parse_ban\<close>\<close>

lemma ord_simps: "ord CHR ''_'' = 95" "ord CHR ''('' = 40" "ord CHR '')'' = 41"
  by (simp_all add: ord_def)

lemma lit_simps: "lit ''_'' = [95]" "lit ''('' = [40]" "lit '')'' = [41]"
  by (simp_all add: lit_def)


lemma takeWhile_upto: "sep \<notin> set a \<Longrightarrow> takeWhile (\<lambda>c. c \<noteq> sep) (a @ sep # rest) = a"
  by (induction a) auto

lemma dropWhile_upto: "sep \<notin> set a \<Longrightarrow> dropWhile (\<lambda>c. c \<noteq> sep) (a @ sep # rest) = sep # rest"
  by (induction a) auto

lemma dropWhile_all: "list_all P xs \<Longrightarrow> dropWhile P (xs @ ys) = dropWhile P ys"
  by (induction xs) auto

lemma count_tl_dropWhile:
  "sep \<in> set s \<Longrightarrow>
   length (filter (\<lambda>c. c = sep) (tl (dropWhile (\<lambda>c. c \<noteq> sep) s)))
     = length (filter (\<lambda>c. c = sep) s) - 1"
  by (induction s) auto

lemma count_pos: "sep \<in> set s \<Longrightarrow> 0 < length (filter (\<lambda>c. c = sep) s)"
  by (induction s) auto

lemma length_split_max:
  "length (split_max sep n s) = Suc (min n (length (filter (\<lambda>c. c = sep) s)))"
proof (induction n arbitrary: s)
  case 0
  then show ?case by simp
next
  case (Suc n)
  show ?case
  proof (cases "sep \<in> set s")
    case True
    have "length (split_max sep (Suc n) s)
            = Suc (length (split_max sep n (tl (dropWhile (\<lambda>c. c \<noteq> sep) s))))"
      using True by simp
    also have "\<dots> = Suc (Suc (min n (length (filter (\<lambda>c. c = sep) s) - 1)))"
      using True by (simp only: Suc count_tl_dropWhile)
    also have "\<dots> = Suc (min (Suc n) (length (filter (\<lambda>c. c = sep) s)))"
      using count_pos [OF True] by arith
    finally show ?thesis .
  next
    case False
    then have "filter (\<lambda>c. c = sep) s = []" by (induction s) auto
    with False show ?thesis by simp
  qed
qed

lemma split_max_few:
  assumes "length (filter (\<lambda>c. c = sep) s) < 2"
  shows "length (split_max sep 2 s) < 3"
  using assms by (simp add: length_split_max)

lemma split_max_step:
  "sep \<notin> set a \<Longrightarrow> split_max sep (Suc n) (a @ sep # rest) = a # split_max sep n rest"
  by (simp add: takeWhile_upto dropWhile_upto)

lemma split_max_two:
  assumes "sep \<notin> set a" "sep \<notin> set b"
  shows "split_max sep 2 (a @ [sep] @ b @ [sep] @ rest) = [a, b, rest]"
proof -
  have "split_max sep (Suc (Suc 0)) (a @ sep # (b @ sep # rest))
          = a # split_max sep (Suc 0) (b @ sep # rest)"
    using assms(1) by (rule split_max_step)
  also have "split_max sep (Suc 0) (b @ sep # rest) = b # split_max sep 0 rest"
    using assms(2) by (rule split_max_step)
  finally have "split_max sep (Suc (Suc 0)) (a @ sep # (b @ sep # rest)) = [a, b, rest]"
    by simp
  then show ?thesis by (simp only: numeral_2_eq_2 append_Cons append_Nil)
qed

lemma rstrip_append:
  assumes "list_all isspace ws" "reason = [] \<or> \<not> isspace (last reason)"
  shows "rstrip (reason @ ws) = reason"
proof -
  have "list_all isspace (rev ws)" using assms(1) by (simp add: list_all_iff)
  then have "dropWhile isspace (rev ws @ rev reason) = dropWhile isspace (rev reason)"
    by (rule dropWhile_all)
  moreover have "dropWhile isspace (rev reason) = rev reason"
    using assms(2) by (cases reason rule: rev_cases) auto
  ultimately show ?thesis by (simp add: rstrip_def)
qed

lemma endswith_single: "endswith s [c] \<longleftrightarrow> s \<noteq> [] \<and> last s = c"
proof (cases s rule: rev_cases)
  case Nil
  then show ?thesis by (simp add: endswith_def)
next
  case (snoc ys y)
  then show ?thesis by (auto simp: endswith_def)
qed

lemma rfind_absent: "c \<notin> set s \<Longrightarrow> rfind s c = - 1"
  by (simp add: rfind_def)

lemma takeWhile_short: "c \<in> set xs \<Longrightarrow> length (takeWhile (\<lambda>x. x \<noteq> c) xs) < length xs"
  by (induction xs) auto

lemma rfind_present: "c \<in> set s \<Longrightarrow> rfind s c \<noteq> - 1"
  using takeWhile_short [of c "rev s"] by (simp add: rfind_def)

lemma rfind_last_occurrence:
  assumes "c \<notin> set post"
  shows "rfind (pre @ [c] @ post) c = int (length pre)"
proof -
  have "takeWhile (\<lambda>x. x \<noteq> c) (rev post @ c # rev pre) = rev post"
    using assms by (simp add: takeWhile_upto)
  then show ?thesis by (simp add: rfind_def)
qed

lemma slice_between:
  "slice (pre @ [a] @ user @ [b]) (int (length pre) + 1) (int (length pre) + 1 + int (length user)) = user"
  by (simp add: slice_def slice_index_def Let_def nat_add_distrib)

lemma parse_ban_few:
  assumes "length (filter (\<lambda>c. c = ord CHR ''_'') s) < 2"
  shows "parse_ban s = Inl ValueError"
proof -
  from assms have "length (split_max (ord CHR ''_'') 2 s) < 3" by (rule split_max_few)
  then show ?thesis by (auto simp: parse_ban_def split: list.splits)
qed

lemma parse_ban_attributed:
  assumes t: "ord CHR ''_'' \<notin> set temp" and l: "ord CHR ''_'' \<notin> set len"
    and ws: "list_all isspace ws" and r: "reason = [] \<or> \<not> isspace (last reason)"
    and u: "reason = pre @ lit ''('' @ user @ lit '')''" and nu: "ord CHR ''('' \<notin> set user"
  shows "parse_ban (temp @ lit ''_'' @ len @ lit ''_'' @ reason @ ws) = Inr (Some user)"
proof -
  have split: "split_max (ord CHR ''_'') 2 (temp @ lit ''_'' @ len @ lit ''_'' @ reason @ ws)
                 = [temp, len, reason @ ws]"
    using t l unfolding lit_simps ord_simps by (rule split_max_two)
  have strip: "rstrip (reason @ ws) = reason" using ws r by (rule rstrip_append)
  have e: "endswith reason (lit '')'')" by (simp add: u lit_simps endswith_single)
  have "ord CHR ''('' \<notin> set (user @ [41])" using nu by (simp add: ord_simps)
  then have f1: "rfind reason (ord CHR ''('') = int (length pre)"
    using rfind_last_occurrence [of "ord CHR ''(''" "user @ [41]" pre]
    by (simp add: u lit_simps ord_simps)
  have f2: "rfind reason (ord CHR '')'') = int (length pre) + 1 + int (length user)"
    using rfind_last_occurrence [of 41 "[]" "pre @ [40] @ user"]
    by (simp add: u lit_simps ord_simps)
  have "slice reason (int (length pre) + 1) (int (length pre) + 1 + int (length user)) = user"
    unfolding u lit_simps by (rule slice_between)
  then show ?thesis
    by (simp add: parse_ban_def split strip e f1 f2 Let_def)
qed

lemma parse_ban_unattributed:
  assumes t: "ord CHR ''_'' \<notin> set temp" and l: "ord CHR ''_'' \<notin> set len"
    and ws: "list_all isspace ws" and r: "reason = [] \<or> \<not> isspace (last reason)"
    and n: "\<not> ((\<exists>body. reason = body @ lit '')'') \<and> ord CHR ''('' \<in> set reason)"
  shows "parse_ban (temp @ lit ''_'' @ len @ lit ''_'' @ reason @ ws) = Inr None"
proof -
  have split: "split_max (ord CHR ''_'') 2 (temp @ lit ''_'' @ len @ lit ''_'' @ reason @ ws)
                 = [temp, len, reason @ ws]"
    using t l unfolding lit_simps ord_simps by (rule split_max_two)
  have strip: "rstrip (reason @ ws) = reason" using ws r by (rule rstrip_append)
  have "endswith reason (lit '')'') \<longleftrightarrow> (\<exists>body. reason = body @ lit '')'')"
    unfolding lit_simps endswith_single by (cases reason rule: rev_cases) auto
  with n have "\<not> endswith reason (lit '')'') \<or> rfind reason (ord CHR ''('') = - 1"
    using rfind_absent by blast
  then show ?thesis
    by (auto simp: parse_ban_def split strip Let_def)
qed

lemma parse_ban_returns:
  assumes "2 \<le> length (filter (\<lambda>c. c = ord CHR ''_'') s)"
  shows "\<exists>r. parse_ban s = Inr r"
proof -
  from assms have "length (split_max (ord CHR ''_'') 2 s) = 3"
    by (simp add: length_split_max)
  then obtain temp len rest where "split_max (ord CHR ''_'') 2 s = [temp, len, rest]"
    by (auto simp: length_Suc_conv numeral_3_eq_3)
  then show ?thesis by (simp add: parse_ban_def Let_def)
qed

lemma last_paren:
  assumes "reason = body @ lit '')''" "ord CHR ''('' \<in> set reason"
  shows "\<exists>pre user. reason = pre @ lit ''('' @ user @ lit '')'' \<and> ord CHR ''('' \<notin> set user"
proof -
  from assms have "ord CHR ''('' \<in> set body" by (simp add: lit_simps ord_simps)
  then obtain pre user where "body = pre @ ord CHR ''('' # user" "ord CHR ''('' \<notin> set user"
    by (blast dest: split_list_last)
  then show ?thesis using assms(1) by (auto simp: lit_simps ord_simps)
qed

text \<open>
  Claim C8. \<^verbatim>\<open>parse_ban\<close> raises \<^verbatim>\<open>ValueError\<close> (the spec's FormatError) on every text with
  fewer than two \<open>_\<close>, and returns on every other text. On a text \<open>temp_len_rest\<close>, where
  \<open>temp\<close> and \<open>len\<close> hold no \<open>_\<close> (so the split is at the first two separators and \<open>rest\<close>
  is kept whole), let \<open>reason\<close> be \<open>rest\<close> without its trailing whitespace. If \<open>reason\<close>
  ends with \<open>)\<close> and holds a \<open>(\<close>, it is \<open>pre(user)\<close> for some \<open>user\<close> without \<open>(\<close>, which
  is the result; and whenever \<open>reason\<close> is \<open>pre(user)\<close> with no \<open>(\<close> in \<open>user\<close>, that is,
  \<open>user\<close> lies strictly between the last \<open>(\<close> and the final \<open>)\<close>, the result is \<open>user\<close>.
  If \<open>reason\<close> does not end with \<open>)\<close> or holds no \<open>(\<close>, the result is \<^verbatim>\<open>None\<close>.
\<close>

theorem parse_ban_correct:
  "(length (filter (\<lambda>c. c = ord CHR ''_'') s) < 2 \<longrightarrow> parse_ban s = Inl ValueError) \<and>
   (2 \<le> length (filter (\<lambda>c. c = ord CHR ''_'') s) \<longrightarrow> (\<exists>r. parse_ban s = Inr r)) \<and>
   (\<forall>temp len rest reason ws.
      s = temp @ lit ''_'' @ len @ lit ''_'' @ rest \<and>
      ord CHR ''_'' \<notin> set temp \<and> ord CHR ''_'' \<notin> set len \<and>
      rest = reason @ ws \<and> list_all isspace ws \<and> (reason = [] \<or> \<not> isspace (last reason)) \<longrightarrow>
        ((\<exists>body. reason = body @ lit '')'') \<and> ord CHR ''('' \<in> set reason
            \<longrightarrow> (\<exists>pre user. reason = pre @ lit ''('' @ user @ lit '')''
                   \<and> ord CHR ''('' \<notin> set user \<and> parse_ban s = Inr (Some user))) \<and>
        (\<forall>pre user. reason = pre @ lit ''('' @ user @ lit '')'' \<and> ord CHR ''('' \<notin> set user
            \<longrightarrow> parse_ban s = Inr (Some user)) \<and>
        (\<not> ((\<exists>body. reason = body @ lit '')'') \<and> ord CHR ''('' \<in> set reason)
            \<longrightarrow> parse_ban s = Inr None))"
proof (intro conjI allI impI; (elim conjE exE)?)
  assume "length (filter (\<lambda>c. c = ord CHR ''_'') s) < 2"
  then show "parse_ban s = Inl ValueError" by (rule parse_ban_few)
next
  assume "2 \<le> length (filter (\<lambda>c. c = ord CHR ''_'') s)"
  then show "\<exists>r. parse_ban s = Inr r" by (rule parse_ban_returns)
next
  fix temp len rest reason ws body
  assume s: "s = temp @ lit ''_'' @ len @ lit ''_'' @ rest" and rest: "rest = reason @ ws"
    and h: "ord CHR ''_'' \<notin> set temp" "ord CHR ''_'' \<notin> set len"
      "list_all isspace ws" "reason = [] \<or> \<not> isspace (last reason)"
    and e: "reason = body @ lit '')''" "ord CHR ''('' \<in> set reason"
  from last_paren [OF e] obtain pre user
    where u: "reason = pre @ lit ''('' @ user @ lit '')''" "ord CHR ''('' \<notin> set user"
    by blast
  have "parse_ban s = Inr (Some user)"
    unfolding s rest by (rule parse_ban_attributed [OF h u])
  with u show "\<exists>pre user. reason = pre @ lit ''('' @ user @ lit '')''
      \<and> ord CHR ''('' \<notin> set user \<and> parse_ban s = Inr (Some user)"
    by blast
next
  fix temp len rest reason ws pre user
  assume s: "s = temp @ lit ''_'' @ len @ lit ''_'' @ rest" and rest: "rest = reason @ ws"
    and h: "ord CHR ''_'' \<notin> set temp" "ord CHR ''_'' \<notin> set len"
      "list_all isspace ws" "reason = [] \<or> \<not> isspace (last reason)"
      "reason = pre @ lit ''('' @ user @ lit '')''" "ord CHR ''('' \<notin> set user"
  show "parse_ban s = Inr (Some user)" unfolding s rest by (rule parse_ban_attributed [OF h])
next
  fix temp len rest reason ws
  assume s: "s = temp @ lit ''_'' @ len @ lit ''_'' @ rest" and rest: "rest = reason @ ws"
    and h: "ord CHR ''_'' \<notin> set temp" "ord CHR ''_'' \<notin> set len"
      "list_all isspace ws" "reason = [] \<or> \<not> isspace (last reason)"
      "\<not> ((\<exists>body. reason = body @ lit '')'') \<and> ord CHR ''('' \<in> set reason)"
  show "parse_ban s = Inr None" unfolding s rest by (rule parse_ban_unattributed [OF h])
qed

theorem parse_ban_correct_witness:
  "parse_ban (lit ''onlyonesep_reason'') = Inl ValueError \<and>
   parse_ban (lit ''1_2_Cheating detected (JohnDoe) '') = Inr (Some (lit ''JohnDoe'')) \<and>
   parse_ban (lit ''1_2_Cheating detected'') = Inr None"
proof (intro conjI)
  show "parse_ban (lit ''onlyonesep_reason'') = Inl ValueError"
    using parse_ban_correct [of "lit ''onlyonesep_reason''", THEN conjunct1]
    by (simp add: lit_def ord_def)
  show "parse_ban (lit ''1_2_Cheating detected (JohnDoe) '') = Inr (Some (lit ''JohnDoe''))"
    using parse_ban_correct [of "lit ''1_2_Cheating detected (JohnDoe) ''",
        THEN conjunct2, THEN conjunct2, rule_format,
        where temp = "lit ''1''" and len = "lit ''2''"
          and rest = "lit ''Cheating detected (JohnDoe) ''"
          and reason = "lit ''Cheating detected (JohnDoe)''" and ws = "lit '' ''",
        THEN conjunct2, THEN conjunct1, rule_format,
        where pre = "lit ''Cheating detected ''" and user = "lit ''JohnDoe''"]
    by (simp add: lit_def ord_def isspace_def)
  show "parse_ban (lit ''1_2_Cheating detected'') = Inr None"
    using parse_ban_correct [of "lit ''1_2_Cheating detected''",
        THEN conjunct2, THEN conjunct2, rule_format,
        where temp = "lit ''1''" and len = "lit ''2''"
          and rest = "lit ''Cheating detected''"
          and reason = "lit ''Cheating detected''" and ws = "[]",
        THEN conjunct2, THEN conjunct2, rule_format]
    by (simp add: lit_def ord_def isspace_def)
qed

subsection \<open>URL-safe base64 and \<^verbatim>\<open>xor_encode\<close>\<close>

text \<open>The codes that \<open>b64_code\<close> gives are the alphabet of RFC 4648, section 5, in its order.\<close>

lemma b64_alphabet:
  "map b64_code [0..<64] =
     map of_char ''ABCDEFGHIJKLMNOPQRSTUVWXYZabcdefghijklmnopqrstuvwxyz0123456789-_''"
  by code_simp

lemma b64_code_less: "b64_code n < 256"
  unfolding b64_code_def by (simp split: if_splits; arith)

lemma unat_b64_char: "unat (b64_char n) = b64_code n"
  unfolding b64_char_def using b64_code_less [of n] by (simp add: unat_of_nat)

lemma b64_index_char: "n < 64 \<Longrightarrow> b64_index (b64_char n) = Some n"
  unfolding b64_index_def unat_b64_char Let_def b64_code_def by (simp split: if_splits; arith)

lemma b64_char_not_pad: "n < 64 \<Longrightarrow> b64_char n \<noteq> b64_pad"
proof
  assume n: "n < 64" and "b64_char n = b64_pad"
  then have "unat (b64_char n) = unat b64_pad" by simp
  then have "b64_code n = 61" by (simp add: unat_b64_char b64_pad_def)
  with n show False by (simp add: b64_code_def split: if_splits)
qed

lemma div_hi: "x < k \<Longrightarrow> (m * k + x) div k = (m::nat)"
  by simp

lemma mod_lo: "x < k \<Longrightarrow> (m * k + x) mod k = (x::nat)"
  by simp

lemma unat_byte: "unat (a :: byte) < 256"
  using unsigned_less [of a, where ?'a = nat] by simp

lemma unat_byte_div: "unat (a :: byte) div 4 < 64" "unat a div 16 < 16" "unat a div 64 < 4"
  using unat_byte [of a] by (simp_all add: less_mult_imp_div_less)

lemma sextet_ranges:
  fixes a b c :: byte
  shows "unat a mod 4 * 16 + unat b div 16 < 64" "unat b mod 16 * 4 + unat c div 64 < 64"
    "unat c mod 64 < 64" "unat a mod 4 * 16 < 64" "unat b mod 16 * 4 < 64"
proof -
  have "unat a mod 4 < 4" "unat b mod 16 < 16" by simp_all
  moreover have "unat b div 16 < 16" "unat c div 64 < 4" by (rule unat_byte_div)+
  ultimately show "unat a mod 4 * 16 + unat b div 16 < 64"
    "unat b mod 16 * 4 + unat c div 64 < 64"
    "unat a mod 4 * 16 < 64" "unat b mod 16 * 4 < 64" by linarith+
  show "unat c mod 64 < 64" by simp
qed

lemma sextets_join:
  fixes a b c :: byte
  shows "unat a div 4 * 4 + (unat a mod 4 * 16 + unat b div 16) div 16 = unat a"
    "(unat a mod 4 * 16 + unat b div 16) mod 16 * 16 + (unat b mod 16 * 4 + unat c div 64) div 4
       = unat b"
    "(unat b mod 16 * 4 + unat c div 64) mod 4 * 64 + unat c mod 64 = unat c"
    "unat a div 4 * 4 + (unat a mod 4 * 16) div 16 = unat a"
    "(unat a mod 4 * 16 + unat b div 16) mod 16 * 16 + (unat b mod 16 * 4) div 4 = unat b"
proof -
  have b: "unat b div 16 < 16" and c: "unat c div 64 < 4" by (rule unat_byte_div)+
  show "unat a div 4 * 4 + (unat a mod 4 * 16 + unat b div 16) div 16 = unat a"
    by (simp only: div_hi [OF b] div_mult_mod_eq)
  show "(unat a mod 4 * 16 + unat b div 16) mod 16 * 16
          + (unat b mod 16 * 4 + unat c div 64) div 4 = unat b"
    by (simp only: mod_lo [OF b] div_hi [OF c] div_mult_mod_eq)
  show "(unat b mod 16 * 4 + unat c div 64) mod 4 * 64 + unat c mod 64 = unat c"
    by (simp only: mod_lo [OF c] div_mult_mod_eq)
  show "unat a div 4 * 4 + (unat a mod 4 * 16) div 16 = unat a"
    by simp
  have "(unat b mod 16 * 4) div 4 = unat b mod 16" by simp
  then show "(unat a mod 4 * 16 + unat b div 16) mod 16 * 16 + (unat b mod 16 * 4) div 4 = unat b"
    by (simp only: mod_lo [OF b] div_mult_mod_eq)
qed

lemmas b64_facts = b64_index_char b64_char_not_pad unat_byte_div sextet_ranges sextets_join

text \<open>Decoding what the encoder wrote gives the bytes back.\<close>

lemma urlsafe_b64_roundtrip: "urlsafe_b64decode (urlsafe_b64encode bs) = Inr bs"
proof (induction bs rule: urlsafe_b64encode.induct)
  case 1
  then show ?case by simp
next
  case (2 a)
  show ?case by (simp add: b64_facts)
next
  case (3 a b)
  show ?case by (simp add: b64_facts)
next
  case (4 a b c rest)
  then show ?case by (simp add: b64_facts)
qed

lemma xor_encode_eq:
  "xor_encode data key =
     Inr (urlsafe_b64encode
            (map (\<lambda>(d, k). d XOR k) (zip data (cycle_from key key (length data)))))"
  by (simp add: xor_encode_def cyclic_xor_eq)

text \<open>
  Claim C7, as the code has it. When the key is not empty, or when the data is, decoding
  \<^verbatim>\<open>xor_encode(data, key)\<close> from URL-safe base64 and applying \<^verbatim>\<open>cyclic_xor\<close> with the same
  key gives \<open>data\<close> back: each of the three calls returns, and the last one returns
  \<open>data\<close>.
\<close>

theorem xor_encode_roundtrip:
  assumes "key \<noteq> [] \<or> data = []"
  shows "\<exists>e x. xor_encode data key = Inr e \<and> urlsafe_b64decode e = Inr x
           \<and> cyclic_xor x key = Inr data"
proof -
  let ?ks = "cycle_from key key (length data)"
  let ?x = "map (\<lambda>(d, k). d XOR k) (zip data ?ks)"
  have enc: "xor_encode data key = Inr (urlsafe_b64encode ?x)" by (rule xor_encode_eq)
  have dec: "urlsafe_b64decode (urlsafe_b64encode ?x) = Inr ?x" by (rule urlsafe_b64_roundtrip)
  have "cyclic_xor ?x key = Inr data"
  proof (cases "key = []")
    case True
    with assms show ?thesis by (simp add: cyclic_xor_eq)
  next
    case False
    then have len: "length ?ks = length data" by (rule length_cycle_from)
    then have "length ?x = length data" by simp
    then have "cyclic_xor ?x key = Inr (map (\<lambda>(d, k). d XOR k) (zip ?x ?ks))"
      by (simp only: cyclic_xor_eq)
    also have "\<dots> = Inr data" using len by (simp only: zip_xor_twice)
    finally show ?thesis .
  qed
  with enc dec show ?thesis by blast
qed

theorem xor_encode_roundtrip_witness:
  "[7, 9] \<noteq> ([] :: bytes) \<and>
   (\<exists>e x. xor_encode [1, 2, 3, 4] [7, 9] = Inr e \<and> urlsafe_b64decode e = Inr x
      \<and> cyclic_xor x [7, 9] = Inr [1, 2, 3, 4])"
  using xor_encode_roundtrip [of "[7, 9]" "[1, 2, 3, 4]"] by simp

text \<open>
  Claim C7 as stated, for every key, fails at the empty key: \<^verbatim>\<open>xor_encode(b"\x01", b"")\<close>
  is \<^verbatim>\<open>b""\<close>, which decodes to \<^verbatim>\<open>b""\<close>, and \<^verbatim>\<open>cyclic_xor(b"", b"")\<close> is \<^verbatim>\<open>b""\<close>, not the data.
\<close>

theorem xor_encode_roundtrip_counterexample:
  "xor_encode [1] [] = Inr [] \<and> urlsafe_b64decode [] = Inr [] \<and> cyclic_xor [] [] = Inr []
     \<and> Inr [] \<noteq> (Inr [1] :: error + bytes)"
  by (simp add: xor_encode_def cyclic_xor_def bytes_of_ints_def)

subsection \<open>The methods of \<^verbatim>\<open>User\<close>\<close>

lemma length_sha1: "length (sha1 m) = 20"
  by (simp add: sha1_def bytes_of_word32_def split: prod.splits)

lemma length_hexdigest: "length (hexdigest bs) = 2 * length bs"
  by (induction bs) (simp_all add: hexdigest_def)

lemma hex_digit_lower:
  assumes "n < 16"
  shows "hex_digit n \<in> set (lit ''0123456789abcdef'')"
proof -
  have "n \<in> {0, 1, 2, 3, 4, 5, 6, 7, 8, 9, 10, 11, 12, 13, 14, 15}"
    using assms by simp arith
  then show ?thesis by (auto simp: hex_digit_def lit_def)
qed

lemma hexdigest_lower: "set (hexdigest bs) \<subseteq> set (lit ''0123456789abcdef'')"
proof -
  have "hex_digit (unat b div 16) \<in> set (lit ''0123456789abcdef'')"
    and "hex_digit (unat b mod 16) \<in> set (lit ''0123456789abcdef'')" for b :: byte
    using unat_byte_div(2) [of b] by (simp_all add: hex_digit_lower)
  then show ?thesis unfolding hexdigest_def by (induction bs) auto
qed

text \<open>
  Claim C5, as the code has it. For a user whose password is the byte sequence \<open>s\<close>,
  \<^verbatim>\<open>gjp2\<close> is the hexadecimal SHA-1 digest of \<open>s\<close> followed by the fixed constant
  \<^verbatim>\<open>b"mI29fmAnxgTs"\<close>, which has 12 bytes: forty characters, each a digit or a lower-case
  letter from \<open>a\<close> to \<open>f\<close>.
\<close>

theorem gjp2_digest:
  assumes "User_password u = Some s"
  shows "gjp2 u = Inr (hexdigest (sha1 (s @ gjp2_salt)))
       \<and> gjp2_salt = ascii ''mI29fmAnxgTs'' \<and> length gjp2_salt = 12
       \<and> length (hexdigest (sha1 (s @ gjp2_salt))) = 40
       \<and> set (hexdigest (sha1 (s @ gjp2_salt))) \<subseteq> set (lit ''0123456789abcdef'')"
  using assms
  by (simp add: gjp2_def length_hexdigest length_sha1 hexdigest_lower)
     (simp add: gjp2_salt_def ascii_def)

theorem gjp2_digest_witness:
  "User_password \<lparr>User_id = None, User_name = lit ''bob'',
                   User_password = Some (ascii ''pw123''), User_accountID = Some 5\<rparr>
     = Some (ascii ''pw123'') \<and>
   gjp2 \<lparr>User_id = None, User_name = lit ''bob'',
         User_password = Some (ascii ''pw123''), User_accountID = Some 5\<rparr>
     = Inr (hexdigest (sha1 (ascii ''pw123'' @ gjp2_salt))) \<and>
   length gjp2_salt = 12"
  using gjp2_digest [of "\<lparr>User_id = None, User_name = lit ''bob'',
      User_password = Some (ascii ''pw123''), User_accountID = Some 5\<rparr>" "ascii ''pw123''"]
  by simp

text \<open>
  Claim C5 as stated, with a constant of 14 bytes, fails: the constant that \<^verbatim>\<open>gjp2\<close>
  appends to the password \<^verbatim>\<open>b"pw123"\<close> is \<^verbatim>\<open>b"mI29fmAnxgTs"\<close>, of 12 bytes.
\<close>

theorem gjp2_digest_counterexample:
  "gjp2 \<lparr>User_id = None, User_name = lit ''bob'',
         User_password = Some (ascii ''pw123''), User_accountID = Some 5\<rparr>
     = Inr (hexdigest (sha1 (ascii ''pw123'' @ ascii ''mI29fmAnxgTs''))) \<and>
   length (ascii ''mI29fmAnxgTs'') \<noteq> 14"
  by (simp add: gjp2_def gjp2_salt_def ascii_def)

lemma getattr_User_username: "getattr_User u ''username'' = Inl AttributeError"
  by (simp add: getattr_User_def)

text \<open>
  Claim C10. For every user \<open>u\<close>, every content \<open>c\<close> and every level id \<open>l\<close>, both
  \<^verbatim>\<open>u.level_comment_chk(c, l)\<close> and \<^verbatim>\<open>u.profile_comment_chk(c)\<close> raise
  \<^verbatim>\<open>AttributeError\<close>: they read \<^verbatim>\<open>self.username\<close>, and a \<^verbatim>\<open>User\<close> has the attribute
  \<^verbatim>\<open>name\<close> and none called \<^verbatim>\<open>username\<close>. No input makes either return a checksum.
\<close>

theorem comment_chk_methods_raise:
  "level_comment_chk u c l = Inl AttributeError \<and> profile_comment_chk u c = Inl AttributeError
     \<and> (\<forall>chk. level_comment_chk u c l \<noteq> Inr chk \<and> profile_comment_chk u c \<noteq> Inr chk)"
  by (simp add: level_comment_chk_def profile_comment_chk_def getattr_User_username)

subsection \<open>The database\<close>

lemma create_async_engine_source:
  "create_async_engine (lit ''aiosqlite+sqlite:///'' @ name) = Inl NoSuchModuleError"
  by (simp add: create_async_engine_def sqlalchemy_dialects_def lit_def ord_def)

text \<open>No \<^verbatim>\<open>Database\<close> object can be built: the constructor raises for every name.\<close>

lemma Database_new_raises: "Database_new name = Inl NoSuchModuleError"
  by (simp add: Database_new_def create_async_engine_source)

lemma init_db_raises: "\<not> initalized self \<Longrightarrow> init_db self = Inl TypeError"
  by (simp add: init_db_def create_all_def)

text \<open>
  Entering a session raises on an object that is not initialised, and leaves it so; the
  flag is never set by the code.
\<close>

lemma session_fresh: "session \<lparr>Database_name = name, initalized = False\<rparr> = Inl TypeError"
  by (simp add: session_def init_db_raises)

lemma session_cases:
  "session self = (if initalized self then Inr self else Inl TypeError)"
  by (simp add: session_def init_db_raises)

lemma configure_mappers_raises: "configure_mappers = Inl SQLAlchemyError"
  by (simp add: configure_mappers_def declared_relationships_def relationship_ok_def
        declared_foreign_keys_def)

lemma issue_ban_outcome:
  "issue_ban hostname self ban_str caused_by proxy =
     (Inl (if \<not> initalized self then TypeError
           else (case hostname (fix_skid_proxy proxy) of
                   Inl e \<Rightarrow> e
                 | Inr host \<Rightarrow> (case parse_ban ban_str of
                                  Inl e \<Rightarrow> e
                                | Inr real_user \<Rightarrow> SQLAlchemyError))), self)"
  by (simp add: issue_ban_def session_cases configure_mappers_raises split: sum.splits)

text \<open>
  Claim C1, on the code. \<^verbatim>\<open>Database(name)\<close> raises \<^verbatim>\<open>NoSuchModuleError\<close>, so there is no
  object to call \<^verbatim>\<open>issue_ban\<close> on. On an object as the constructor would have left it,
  \<^verbatim>\<open>issue_ban\<close> raises \<^verbatim>\<open>TypeError\<close> for every ban text and address, the first time and
  every time after, and the object stays as it was; on any object at all, both calls of
  the claim raise and change nothing. No ban is ever recorded, neither for \<open>t1\<close> nor for
  \<open>t2\<close>.
\<close>

theorem issue_ban_raises:
  "Database_new name = Inl NoSuchModuleError
   \<and> issue_ban hostname \<lparr>Database_name = name, initalized = False\<rparr> t1 None a
       = (Inl TypeError, \<lparr>Database_name = name, initalized = False\<rparr>)
   \<and> issue_ban hostname \<lparr>Database_name = name, initalized = False\<rparr> t2 None a
       = (Inl TypeError, \<lparr>Database_name = name, initalized = False\<rparr>)
   \<and> (\<exists>e1 e2. issue_ban hostname self t1 caused_by a = (Inl e1, self)
          \<and> issue_ban hostname self t2 caused_by a = (Inl e2, self))"
proof (intro conjI)
  show "Database_new name = Inl NoSuchModuleError" by (rule Database_new_raises)
  show "issue_ban hostname \<lparr>Database_name = name, initalized = False\<rparr> t1 None a
       = (Inl TypeError, \<lparr>Database_name = name, initalized = False\<rparr>)"
    by (simp add: issue_ban_outcome)
  show "issue_ban hostname \<lparr>Database_name = name, initalized = False\<rparr> t2 None a
       = (Inl TypeError, \<lparr>Database_name = name, initalized = False\<rparr>)"
    by (simp add: issue_ban_outcome)
  show "\<exists>e1 e2. issue_ban hostname self t1 caused_by a = (Inl e1, self)
          \<and> issue_ban hostname self t2 caused_by a = (Inl e2, self)"
    by (simp only: issue_ban_outcome) blast
qed

lemma new_bot_account_outcome:
  "new_bot_account self username password accountID =
     (Inl (if \<not> initalized self then TypeError
           else (case encode_utf8 password of Inl e \<Rightarrow> e | Inr pw \<Rightarrow> SQLAlchemyError)), self)"
  by (simp add: new_bot_account_def session_cases configure_mappers_raises split: sum.splits)

lemma get_bot_outcome:
  "get_bot self username = (Inl (if \<not> initalized self then TypeError else SQLAlchemyError), self)"
  by (simp add: get_bot_def session_cases configure_mappers_raises)

text \<open>
  Claim C4, on the code. \<^verbatim>\<open>Database(name)\<close> raises \<^verbatim>\<open>NoSuchModuleError\<close>. On an object as
  the constructor would have left it, \<^verbatim>\<open>new_bot_account\<close> and \<^verbatim>\<open>get_bot\<close> raise
  \<^verbatim>\<open>TypeError\<close> for every name, password and id, and the object stays as it was; on any
  object at all, the two calls of the claim and the lookup raise and change nothing. No
  account is ever recorded or found.
\<close>

theorem new_bot_account_raises:
  "Database_new name = Inl NoSuchModuleError
   \<and> new_bot_account \<lparr>Database_name = name, initalized = False\<rparr> n s1 x1
       = (Inl TypeError, \<lparr>Database_name = name, initalized = False\<rparr>)
   \<and> new_bot_account \<lparr>Database_name = name, initalized = False\<rparr> n s2 x2
       = (Inl TypeError, \<lparr>Database_name = name, initalized = False\<rparr>)
   \<and> get_bot \<lparr>Database_name = name, initalized = False\<rparr> n
       = (Inl TypeError, \<lparr>Database_name = name, initalized = False\<rparr>)
   \<and> (\<exists>e1 e2 e3. new_bot_account self n s1 x1 = (Inl e1, self)
          \<and> new_bot_account self n s2 x2 = (Inl e2, self)
          \<and> get_bot self n = (Inl e3, self))"
proof (intro conjI)
  show "Database_new name = Inl NoSuchModuleError" by (rule Database_new_raises)
  show "new_bot_account \<lparr>Database_name = name, initalized = False\<rparr> n s1 x1
       = (Inl TypeError, \<lparr>Database_name = name, initalized = False\<rparr>)"
    by (simp add: new_bot_account_outcome)
  show "new_bot_account \<lparr>Database_name = name, initalized = False\<rparr> n s2 x2
       = (Inl TypeError, \<lparr>Database_name = name, initalized = False\<rparr>)"
    by (simp add: new_bot_account_outcome)
  show "get_bot \<lparr>Database_name = name, initalized = False\<rparr> n
       = (Inl TypeError, \<lparr>Database_name = name, initalized = False\<rparr>)"
    by (simp add: get_bot_outcome)
  show "\<exists>e1 e2 e3. new_bot_account self n s1 x1 = (Inl e1, self)
          \<and> new_bot_account self n s2 x2 = (Inl e2, self)
          \<and> get_bot self n = (Inl e3, self)"
    by (simp only: new_bot_account_outcome get_bot_outcome) blast
qed

lemma user_is_banned_outcome:
  "user_is_banned self username
     = (Inl (if \<not> initalized self then TypeError else SQLAlchemyError), self)"
  by (simp add: user_is_banned_def session_cases configure_mappers_raises)

text \<open>
  Claim C2, on the code. \<^verbatim>\<open>Database(name)\<close> raises \<^verbatim>\<open>NoSuchModuleError\<close>. On an object as
  the constructor would have left it, \<^verbatim>\<open>user_is_banned\<close> raises \<^verbatim>\<open>TypeError\<close> for every
  name; on any object at all it raises and changes nothing. It returns neither true nor
  false for any name, registered or not.
\<close>

theorem user_is_banned_raises:
  "Database_new name = Inl NoSuchModuleError
   \<and> user_is_banned \<lparr>Database_name = name, initalized = False\<rparr> n
       = (Inl TypeError, \<lparr>Database_name = name, initalized = False\<rparr>)
   \<and> (\<exists>e. user_is_banned self n = (Inl e, self))
   \<and> (\<forall>b. fst (user_is_banned self n) \<noteq> Inr b)"
  by (simp add: Database_new_raises user_is_banned_outcome)

lemma proxy_is_banned_outcome:
  "proxy_is_banned hostname self proxy =
     (Inl (case hostname (fix_skid_proxy proxy) of
             Inl e \<Rightarrow> e
           | Inr host \<Rightarrow> if \<not> initalized self then TypeError else SQLAlchemyError), self)"
  by (simp add: proxy_is_banned_def session_cases configure_mappers_raises split: sum.splits)

lemma user_and_proxy_are_banned_outcome:
  "user_and_proxy_are_banned hostname self username proxy =
     (Inl (case hostname (fix_skid_proxy proxy) of
             Inl e \<Rightarrow> e
           | Inr host \<Rightarrow> if \<not> initalized self then TypeError else SQLAlchemyError), self)"
  by (simp add: user_and_proxy_are_banned_def proxy_is_banned_outcome)

text \<open>
  Claim C3, on the code. \<^verbatim>\<open>Database(name)\<close> raises \<^verbatim>\<open>NoSuchModuleError\<close>. On an object as
  the constructor would have left it, \<^verbatim>\<open>user_and_proxy_are_banned\<close> raises for every name
  and address: the error of the URL parser when that raises, \<^verbatim>\<open>TypeError\<close> otherwise. The
  error is the one of the host check, which comes first; the account check is not
  reached. On any object at all the call raises and changes nothing: it returns neither
  true nor false.
\<close>

theorem user_and_proxy_are_banned_raises:
  "Database_new name = Inl NoSuchModuleError
   \<and> user_and_proxy_are_banned hostname \<lparr>Database_name = name, initalized = False\<rparr> n a
       = (Inl (case hostname (fix_skid_proxy a) of Inl e \<Rightarrow> e | Inr host \<Rightarrow> TypeError),
          \<lparr>Database_name = name, initalized = False\<rparr>)
   \<and> (\<exists>e. proxy_is_banned hostname self a = (Inl e, self)
          \<and> user_and_proxy_are_banned hostname self n a = (Inl e, self))
   \<and> (\<forall>b. fst (user_and_proxy_are_banned hostname self n a) \<noteq> Inr b)"
proof (intro conjI)
  show "Database_new name = Inl NoSuchModuleError" by (rule Database_new_raises)
  show "user_and_proxy_are_banned hostname \<lparr>Database_name = name, initalized = False\<rparr> n a
       = (Inl (case hostname (fix_skid_proxy a) of Inl e \<Rightarrow> e | Inr host \<Rightarrow> TypeError),
          \<lparr>Database_name = name, initalized = False\<rparr>)"
    by (simp add: user_and_proxy_are_banned_outcome)
  show "\<exists>e. proxy_is_banned hostname self a = (Inl e, self)
          \<and> user_and_proxy_are_banned hostname self n a = (Inl e, self)"
    by (simp add: user_and_proxy_are_banned_outcome proxy_is_banned_outcome)
  show "\<forall>b. fst (user_and_proxy_are_banned hostname self n a) \<noteq> Inr b"
    by (simp add: user_and_proxy_are_banned_outcome)
qed

end
